theory Spec2Isabelle
  imports Complex_Main
begin

section \<open>Data model\<close>

text \<open>
  The integrator of \<^verbatim>\<open>torchquad/integration\<close>: \<^verbatim>\<open>BaseIntegrator\<close> and its
  subclass \<^verbatim>\<open>MonteCarlo\<close>.  Numbers are idealised as reals: the floating-point
  rounding of the numeric backend is not part of the model, so a dtype is a tag that a
  tensor carries and a cast changes the tag only.  A backend and a dtype are named by
  strings, as \<^verbatim>\<open>infer_backend\<close> and the source's comparisons name them.
\<close>

type_synonym backend = string
type_synonym dtype = string

text \<open>Python exceptions, with the message the source gives them.\<close>

datatype error =
    ValueError string
  | AttributeError string
  | IndexError string
  | TypeError string
  | BackendError string

text \<open>
  A Python number as the caller may pass for \<^verbatim>\<open>N\<close>: \<^verbatim>\<open>type(N) is int\<close> holds
  of \<open>PyInt\<close> only.
\<close>

datatype pynum = PyInt int | PyFloat real

text \<open>
  A backend tensor: shape and row-major data.  What an integrand returns is a Python
  value: a tensor, or a plain Python number, which has neither \<^verbatim>\<open>.shape\<close> nor
  \<^verbatim>\<open>.dtype\<close>.
\<close>

record tensor =
  t_backend :: backend
  t_dtype :: dtype
  t_shape :: "nat list"
  t_data :: "real list"

datatype pyvalue = PyNumber real | PyTensor tensor

text \<open>
  The canonical integration domain, a \<open>dim \<times> 2\<close> table of one backend: row \<open>d\<close> is
  \<open>(lower, upper)\<close>, so \<^verbatim>\<open>integration_domain[d, 0]\<close> is \<open>fst (bounds ! d)\<close> and
  \<^verbatim>\<open>integration_domain[d, 1]\<close> is \<open>snd (bounds ! d)\<close>.
\<close>

record domain =
  d_backend :: backend
  d_dtype :: dtype
  bounds :: "(real \<times> real) list"

text \<open>The sample points, a table of \<open>N\<close> rows with one column per dimension.\<close>

record points =
  p_backend :: backend
  p_dtype :: dtype
  rows :: "real list list"

text \<open>
  A scalar of the backend.  Division by a zero sample count gives the backend's
  not-a-number, the one non-real value the idealised arithmetic can produce.
\<close>

datatype number = Finite real | NaN

record scalar =
  s_dtype :: dtype
  s_value :: number

text \<open>
  What the numeric libraries decide and the repository does not: the stream of a
  generator built from a seed, the dtype a backend gives to \<^verbatim>\<open>volume * sum / N\<close>
  and the dtype a backend gives to a converted Python list.
\<close>

record lib =
  seeded :: "backend \<Rightarrow> int \<Rightarrow> nat \<Rightarrow> real"
  promote :: "backend \<Rightarrow> dtype \<Rightarrow> dtype \<Rightarrow> dtype"
  array_dtype :: "backend \<Rightarrow> dtype"

section \<open>MonteCarlo.calculate_result\<close>

text \<open>\<^verbatim>\<open>function_values.shape[0]\<close>: a plain number has no shape, a 0-d tensor no axis 0.\<close>

definition shape0 :: "pyvalue \<Rightarrow> error + nat" where
  "shape0 v =
     (case v of
        PyNumber x \<Rightarrow> Inl (AttributeError ''object has no attribute shape'')
      | PyTensor t \<Rightarrow>
          (case t_shape t of
             [] \<Rightarrow> Inl (IndexError ''tuple index out of range'')
           | n # ns \<Rightarrow> Inr n))"

text \<open>
  \<^verbatim>\<open>scales = integration_domain[:, 1] - integration_domain[:, 0]\<close>,
  \<^verbatim>\<open>volume = anp.prod(scales)\<close>.
\<close>

definition scales :: "domain \<Rightarrow> real list" where
  "scales D = map (\<lambda>b. snd b - fst b) (bounds D)"

definition volume :: "domain \<Rightarrow> real" where
  "volume D = prod_list (scales D)"

text \<open>
  \<^verbatim>\<open>integral = volume * anp.sum(function_values) / N\<close> with
  \<^verbatim>\<open>N = function_values.shape[0]\<close>; under numpy the result is cast back to the
  dtype of the function values when the division changed it.
\<close>

definition calculate_result :: "lib \<Rightarrow> pyvalue \<Rightarrow> domain \<Rightarrow> error + scalar" where
  "calculate_result L function_values integration_domain =
     (let vol = volume integration_domain in
      case shape0 function_values of
        Inl e \<Rightarrow> Inl e
      | Inr N \<Rightarrow>
          (case function_values of
             PyNumber x \<Rightarrow> Inl (AttributeError ''object has no attribute shape'')
           | PyTensor t \<Rightarrow>
               (let integral =
                      \<lparr> s_dtype = promote L (d_backend integration_domain)
                                   (d_dtype integration_domain) (t_dtype t),
                        s_value = (if N = 0 then NaN
                                   else Finite (vol * sum_list (t_data t) / real N)) \<rparr>;
                    integral' =
                      (if d_backend integration_domain = ''numpy''
                          \<and> t_dtype t \<noteq> s_dtype integral
                       then integral \<lparr> s_dtype := t_dtype t \<rparr>
                       else integral)
                in Inr integral')))"

text \<open>A one-dimensional tensor of function values.\<close>

definition vector :: "backend \<Rightarrow> dtype \<Rightarrow> real list \<Rightarrow> pyvalue" where
  "vector b dt xs = PyTensor \<lparr> t_backend = b, t_dtype = dt, t_shape = [length xs], t_data = xs \<rparr>"

section \<open>BaseIntegrator\<close>

text \<open>
  The instance: the class attributes \<^verbatim>\<open>_fn\<close>, \<^verbatim>\<open>_dim\<close>,
  \<^verbatim>\<open>_integration_domain\<close>, \<^verbatim>\<open>_nr_of_fevals\<close> and \<^verbatim>\<open>_convergence_order\<close>, and
  whether \<^verbatim>\<open>jit_integrate\<close> has stored its tensorflow or jax wrappers on it
  (\<^verbatim>\<open>hasattr(self, "_tf_jit_calculate_sample_points")\<close> and its jax sibling).
\<close>

record integrator =
  fn_attr :: "(points \<Rightarrow> pyvalue) option"
  dim_attr :: "int option"
  integration_domain_attr :: "domain option"
  nr_of_fevals :: int
  convergence_order :: int
  has_tf_jit :: bool
  has_jax_jit :: bool

text \<open>\<^verbatim>\<open>__init__\<close>: the counter starts at 0 and the convergence order at -1.\<close>

definition init :: integrator where
  "init = \<lparr> fn_attr = None, dim_attr = None, integration_domain_attr = None,
            nr_of_fevals = 0, convergence_order = - 1,
            has_tf_jit = False, has_jax_jit = False \<rparr>"

text \<open>
  \<^verbatim>\<open>_eval\<close>: the counter grows by \<^verbatim>\<open>len(points)\<close> before \<^verbatim>\<open>self._fn\<close> is
  called, so it has grown also when \<^verbatim>\<open>_fn\<close> is still \<^verbatim>\<open>None\<close> and the call raises.
\<close>

definition BaseIntegrator_eval :: "integrator \<Rightarrow> points \<Rightarrow> (error + pyvalue) \<times> integrator" where
  "BaseIntegrator_eval self pts =
     (let self' = self \<lparr> nr_of_fevals := nr_of_fevals self + int (length (rows pts)) \<rparr> in
      case fn_attr self' of
        None \<Rightarrow> (Inl (TypeError ''NoneType object is not callable''), self')
      | Some f \<Rightarrow> (Inr (f pts), self'))"

text \<open>
  The domain as the caller passes it: a Python list of bound lists, or a tensor of some
  backend; both have a length and are iterated row by row.
\<close>

datatype domain_arg =
    DomainList "real list list"
  | DomainTensor backend dtype "real list list"

fun arg_rows :: "domain_arg \<Rightarrow> real list list" where
  "arg_rows (DomainList rs) = rs"
| "arg_rows (DomainTensor b dt rs) = rs"

text \<open>\<^verbatim>\<open>N < 1\<close> and \<^verbatim>\<open>type(N) is not int\<close>.\<close>

fun less_than_one :: "pynum \<Rightarrow> bool" where
  "less_than_one (PyInt n) = (n < 1)"
| "less_than_one (PyFloat x) = (x < 1)"

fun type_is_int :: "pynum \<Rightarrow> bool" where
  "type_is_int (PyInt n) = True"
| "type_is_int (PyFloat x) = False"

definition invalid_bound :: string where
  "invalid_bound = '' does not specify a valid integration bound.''"

text \<open>The loop over the bounds of \<^verbatim>\<open>_check_inputs\<close>: the first bad pair raises.\<close>

fun check_bounds :: "real list list \<Rightarrow> error + unit" where
  "check_bounds [] = Inr ()"
| "check_bounds (b # bs) =
     (if length b \<noteq> 2 then Inl (ValueError invalid_bound)
      else if b ! 0 > b ! 1 then Inl (ValueError invalid_bound)
      else check_bounds bs)"

definition check_dim :: "int option \<Rightarrow> domain_arg option \<Rightarrow> error + unit" where
  "check_dim dim' integration_domain =
     (case dim' of
        None \<Rightarrow> Inr ()
      | Some d \<Rightarrow>
          if d < 1 then Inl (ValueError ''Dimension needs to be 1 or larger.'')
          else (case integration_domain of
                  None \<Rightarrow> Inr ()
                | Some a \<Rightarrow>
                    if d \<noteq> int (length (arg_rows a))
                    then Inl (ValueError
                           ''Dimension of integration_domain needs to be match passed dim.'')
                    else Inr ()))"

definition check_N :: "pynum option \<Rightarrow> error + unit" where
  "check_N N =
     (case N of
        None \<Rightarrow> Inr ()
      | Some n \<Rightarrow>
          if less_than_one n \<or> \<not> type_is_int n
          then Inl (ValueError ''N has to be a positive integer.'')
          else Inr ())"

definition check_inputs :: "int option \<Rightarrow> pynum option \<Rightarrow> domain_arg option \<Rightarrow> error + unit" where
  "check_inputs dim' N integration_domain =
     (case check_dim dim' integration_domain of
        Inl e \<Rightarrow> Inl e
      | Inr u \<Rightarrow>
          (case check_N N of
             Inl e \<Rightarrow> Inl e
           | Inr u \<Rightarrow>
               (case integration_domain of
                  None \<Rightarrow> Inr ()
                | Some a \<Rightarrow> check_bounds (arg_rows a))))"

section \<open>The helpers of integration/utils\<close>

text \<open>
  Modelled from the spec: \<^verbatim>\<open>_setup_integration_domain\<close> of
  \<^verbatim>\<open>torchquad/integration/utils.py\<close>, which is not among the sources.  The spec's
  DomainNormalizer turns the optional domain into the canonical two-column table tagged
  with a backend: the backend of the supplied object when it has one, the hint
  otherwise; with no domain the box is \<open>[-1, 1]\<close> in each of \<open>dim\<close> dimensions.  It is
  called after \<open>check_inputs\<close> only, when every row has two entries.
\<close>

definition setup_integration_domain :: "lib \<Rightarrow> int \<Rightarrow> domain_arg option \<Rightarrow> backend \<Rightarrow> domain" where
  "setup_integration_domain L dim' integration_domain backend =
     (case integration_domain of
        None \<Rightarrow>
          \<lparr> d_backend = backend, d_dtype = array_dtype L backend,
            bounds = replicate (nat dim') (- 1, 1) \<rparr>
      | Some (DomainList rs) \<Rightarrow>
          \<lparr> d_backend = backend, d_dtype = array_dtype L backend,
            bounds = map (\<lambda>r. (r ! 0, r ! 1)) rs \<rparr>
      | Some (DomainTensor b dt rs) \<Rightarrow>
          \<lparr> d_backend = b, d_dtype = dt, bounds = map (\<lambda>r. (r ! 0, r ! 1)) rs \<rparr>)"

text \<open>
  The state of a random generator: the stream of the uniform values it has still to
  give.
\<close>

type_synonym rng = "nat \<Rightarrow> real"

text \<open>
  Modelled from the spec: the method \<^verbatim>\<open>uniform\<close> of the class \<^verbatim>\<open>RNG\<close> of
  \<^verbatim>\<open>torchquad/integration/utils.py\<close>, which is not among the sources.
  \<^verbatim>\<open>uniform(size=[n])\<close> takes the next \<open>n\<close> values of the generator and leaves it
  advanced by them; the draws mutate the generator and nothing else.
\<close>

definition uniform :: "rng \<Rightarrow> nat \<Rightarrow> real list \<times> rng" where
  "uniform g n = (map g [0..<n], \<lambda>i. g (i + n))"

text \<open>
  Modelled from the spec: the constructor of the class \<^verbatim>\<open>RNG\<close> of
  \<^verbatim>\<open>torchquad/integration/utils.py\<close>, which is not among the sources.  A generator
  built from a seed is deterministic: its stream is the one the library fixes for the
  backend and the seed.  One built with no seed is not reproducible: it takes the
  ambient unseeded stream \<open>ent\<close>.
\<close>

definition RNG :: "lib \<Rightarrow> backend \<Rightarrow> int option \<Rightarrow> rng \<Rightarrow> rng" where
  "RNG L backend seed ent = (case seed of None \<Rightarrow> ent | Some s \<Rightarrow> seeded L backend s)"

text \<open>
  Modelled from the spec: \<^verbatim>\<open>evaluate_integrand\<close>, which \<^verbatim>\<open>MonteCarlo\<close> calls on
  \<^verbatim>\<open>self\<close> and the \<^verbatim>\<open>BaseIntegrator\<close> among the sources does not define.  The
  spec's IntegrandEvaluator calls the integrand once on the whole batch and returns the
  function values with the incremented evaluation count (old count + N); it validates
  neither the shape nor the dtype of what the integrand returns, and the count is a
  returned value, not a mutation of the instance.
\<close>

definition evaluate_integrand :: "integrator \<Rightarrow> (points \<Rightarrow> pyvalue) \<Rightarrow> points \<Rightarrow> pyvalue \<times> int" where
  "evaluate_integrand self fn pts = (fn pts, nr_of_fevals self + int (length (rows pts)))"

section \<open>MonteCarlo.calculate_sample_points\<close>

text \<open>
  The loop \<^verbatim>\<open>for d in range(dim)\<close> over the rows of the domain, in order: each
  round draws \<open>N\<close> values, scales them by \<open>upper - lower\<close>, shifts them by \<open>lower\<close> and
  appends the column.
\<close>

fun sample_columns :: "nat \<Rightarrow> (real \<times> real) list \<Rightarrow> rng \<Rightarrow> real list list \<times> rng" where
  "sample_columns N [] g = ([], g)"
| "sample_columns N (b # bs) g =
     (let scale = snd b - fst b;
          offset = fst b;
          (u, g') = uniform g N;
          (cols, g'') = sample_columns N bs g'
      in (map (\<lambda>x. x * scale + offset) u # cols, g''))"

text \<open>
  \<^verbatim>\<open>anp.stack(sample_points, axis=1, like=integration_domain)\<close>: the columns become
  the columns of a table of the domain's backend; no backend stacks an empty list.
\<close>

definition stack_axis1 :: "domain \<Rightarrow> real list list \<Rightarrow> error + points" where
  "stack_axis1 D cols =
     (case cols of
        [] \<Rightarrow> Inl (BackendError ''need at least one array to stack'')
      | c # cs \<Rightarrow>
          Inr \<lparr> p_backend = d_backend D, p_dtype = d_dtype D,
                rows = map (\<lambda>i. map (\<lambda>col. col ! i) cols) [0..<length c] \<rparr>)"

definition draw_points :: "nat \<Rightarrow> domain \<Rightarrow> rng \<Rightarrow> (error + points) \<times> rng" where
  "draw_points N D g =
     (let (sample_points, g') = sample_columns N (bounds D) g
      in (stack_axis1 D sample_points, g'))"

text \<open>The error of \<^verbatim>\<open>raise ValueError("seed and rng cannot both be passed")\<close>.\<close>

definition seed_and_rng :: error where
  "seed_and_rng = ValueError ''seed and rng cannot both be passed''"

text \<open>
  The result comes with the caller's generator after the call (\<open>None\<close> when none was
  passed) and the ambient stream after the call: the object the caller passed is
  advanced by the draws, a generator built here from a seed is dropped, and one built
  here with no seed has consumed the ambient stream.
\<close>

definition calculate_sample_points ::
  "lib \<Rightarrow> nat \<Rightarrow> domain \<Rightarrow> int option \<Rightarrow> rng option \<Rightarrow> rng \<Rightarrow> (error + points) \<times> rng option \<times> rng" where
  "calculate_sample_points L N integration_domain seed rng ent =
     (case rng of
        None \<Rightarrow>
          (let (r, g') = draw_points N integration_domain
                           (RNG L (d_backend integration_domain) seed ent)
           in (r, None, (case seed of None \<Rightarrow> g' | Some s \<Rightarrow> ent)))
      | Some g \<Rightarrow>
          (case seed of
             Some s \<Rightarrow> (Inl seed_and_rng, Some g, ent)
           | None \<Rightarrow>
               (let (r, g') = draw_points N integration_domain g
                in (r, Some g', ent))))"

section \<open>MonteCarlo.integrate\<close>

text \<open>
  The sample count once \<open>check_inputs\<close> has passed: \<open>N\<close> is then a Python int of at
  least 1.
\<close>

fun sample_count :: "pynum \<Rightarrow> nat" where
  "sample_count (PyInt n) = nat n"
| "sample_count (PyFloat x) = 0"

text \<open>
  The result comes with the instance, the caller's generator and the ambient stream
  after the call; the only assignment to the instance is that of the count returned by
  \<open>evaluate_integrand\<close>.
\<close>

definition integrate ::
  "lib \<Rightarrow> integrator \<Rightarrow> (points \<Rightarrow> pyvalue) \<Rightarrow> int \<Rightarrow> pynum \<Rightarrow> domain_arg option \<Rightarrow>
   int option \<Rightarrow> rng option \<Rightarrow> backend \<Rightarrow> rng \<Rightarrow>
   (error + scalar) \<times> integrator \<times> rng option \<times> rng" where
  "integrate L self fn dim' N integration_domain seed rng backend ent =
     (case check_inputs (Some dim') (Some N) integration_domain of
        Inl e \<Rightarrow> (Inl e, self, rng, ent)
      | Inr u \<Rightarrow>
          (let D = setup_integration_domain L dim' integration_domain backend in
           case calculate_sample_points L (sample_count N) D seed rng ent of
             (Inl e, rng', ent') \<Rightarrow> (Inl e, self, rng', ent')
           | (Inr sample_points, rng', ent') \<Rightarrow>
               (let (function_values, n) = evaluate_integrand self fn sample_points;
                    self' = self \<lparr> nr_of_fevals := n \<rparr>
                in (calculate_result L function_values D, self', rng', ent'))))"

section \<open>MonteCarlo.jit_integrate\<close>

text \<open>
  What the returned function closes over: \<open>N\<close>, \<open>seed\<close>, \<open>rng\<close>, the backend found
  for the domain, and the domain as \<open>jit_integrate\<close> set it up, which \<open>do_compile\<close>
  uses as the example input of its traces.  The generator is the caller's object, so
  its state here is the state of that object.
\<close>

record closure =
  c_N :: nat
  c_seed :: "int option"
  c_rng :: "rng option"
  c_backend :: backend
  c_domain :: domain

text \<open>
  What \<open>do_compile\<close> builds: the traces of step 1 and step 3, each recorded on its
  example input.
\<close>

record artifact =
  traced_domain :: domain
  traced_values :: pyvalue

text \<open>
  The function \<open>jit_integrate\<close> returns: \<^verbatim>\<open>compiled_integrate\<close> for tensorflow and
  jax, \<^verbatim>\<open>lazy_compiled_integrate\<close> with its cell \<^verbatim>\<open>compiled_func\<close> for torch.
\<close>

datatype callable =
    CompiledIntegrate closure
  | LazyCompiledIntegrate closure "artifact option"

text \<open>
  \<^verbatim>\<open>compiled_integrate\<close>, of both branches: sample, evaluate, reduce.  The wrappers of
  \<^verbatim>\<open>tf.function\<close>, \<^verbatim>\<open>jax.jit\<close> and \<^verbatim>\<open>torch.jit.trace\<close> compute what the wrapped
  method computes.  The count \<open>evaluate_integrand\<close> returns is bound to \<^verbatim>\<open>_\<close>.
\<close>

definition compiled_integrate ::
  "lib \<Rightarrow> integrator \<Rightarrow> closure \<Rightarrow> (points \<Rightarrow> pyvalue) \<Rightarrow> domain \<Rightarrow> rng \<Rightarrow>
   (error + scalar) \<times> rng option \<times> rng" where
  "compiled_integrate L self clo fn integration_domain ent =
     (case calculate_sample_points L (c_N clo) integration_domain (c_seed clo) (c_rng clo) ent of
        (Inl e, rng', ent') \<Rightarrow> (Inl e, rng', ent')
      | (Inr sample_points, rng', ent') \<Rightarrow>
          (let (function_values, n) = evaluate_integrand self fn sample_points
           in (calculate_result L function_values integration_domain, rng', ent')))"

text \<open>
  \<^verbatim>\<open>do_compile\<close>: tracing step 1 runs it once on the domain of \<open>jit_integrate\<close>; the
  traced step 1 then gives the example sample points, the example integrand the example
  function values, and tracing step 3 runs \<open>calculate_result\<close> on them.  A step that
  raises ends the compilation.
\<close>

definition do_compile ::
  "lib \<Rightarrow> integrator \<Rightarrow> closure \<Rightarrow> (points \<Rightarrow> pyvalue) \<Rightarrow> rng \<Rightarrow>
   (error + artifact) \<times> rng option \<times> rng" where
  "do_compile L self clo example_integrand ent =
     (case calculate_sample_points L (c_N clo) (c_domain clo) (c_seed clo) (c_rng clo) ent of
        (Inl e, rng1, ent1) \<Rightarrow> (Inl e, rng1, ent1)
      | (Inr traced, rng1, ent1) \<Rightarrow>
          (case calculate_sample_points L (c_N clo) (c_domain clo) (c_seed clo) rng1 ent1 of
             (Inl e, rng2, ent2) \<Rightarrow> (Inl e, rng2, ent2)
           | (Inr sample_points, rng2, ent2) \<Rightarrow>
               (let (function_values, n) = evaluate_integrand self example_integrand sample_points
                in case calculate_result L function_values (c_domain clo) of
                     Inl e \<Rightarrow> (Inl e, rng2, ent2)
                   | Inr r \<Rightarrow>
                       (Inr \<lparr> traced_domain = c_domain clo, traced_values = function_values \<rparr>,
                        rng2, ent2))))"

text \<open>
  Calling the returned function.  \<^verbatim>\<open>lazy_compiled_integrate\<close> compiles when its cell
  is still \<^verbatim>\<open>None\<close>, stores the artifact and calls it; when \<open>do_compile\<close> raises the
  cell stays \<^verbatim>\<open>None\<close>.  The result comes with the instance, the function (its cell and
  its generator) and the ambient stream after the call.
\<close>

fun invoke ::
  "lib \<Rightarrow> integrator \<Rightarrow> callable \<Rightarrow> (points \<Rightarrow> pyvalue) \<Rightarrow> domain \<Rightarrow> rng \<Rightarrow>
   (error + scalar) \<times> integrator \<times> callable \<times> rng" where
  "invoke L self (CompiledIntegrate clo) fn integration_domain ent =
     (case compiled_integrate L self clo fn integration_domain ent of
        (r, rng', ent') \<Rightarrow> (r, self, CompiledIntegrate (clo \<lparr> c_rng := rng' \<rparr>), ent'))"
| "invoke L self (LazyCompiledIntegrate clo compiled_func) fn integration_domain ent =
     (case compiled_func of
        None \<Rightarrow>
          (case do_compile L self clo fn ent of
             (Inl e, rng1, ent1) \<Rightarrow>
               (Inl e, self, LazyCompiledIntegrate (clo \<lparr> c_rng := rng1 \<rparr>) None, ent1)
           | (Inr art, rng1, ent1) \<Rightarrow>
               (case compiled_integrate L self (clo \<lparr> c_rng := rng1 \<rparr>) fn integration_domain ent1 of
                  (r, rng', ent') \<Rightarrow>
                    (r, self, LazyCompiledIntegrate (clo \<lparr> c_rng := rng' \<rparr>) (Some art), ent')))
      | Some art \<Rightarrow>
          (case compiled_integrate L self clo fn integration_domain ent of
             (r, rng', ent') \<Rightarrow>
               (r, self, LazyCompiledIntegrate (clo \<lparr> c_rng := rng' \<rparr>) (Some art), ent')))"

text \<open>
  \<open>jit_integrate\<close> itself: validation, the domain, the backend of the domain, and
  the branch of that backend.  The tensorflow and jax branches store their wrappers on
  the instance when it has none yet; the torch branch stores nothing on it.
\<close>

definition jit_integrate ::
  "lib \<Rightarrow> integrator \<Rightarrow> int \<Rightarrow> pynum \<Rightarrow> domain_arg option \<Rightarrow> int option \<Rightarrow> rng option \<Rightarrow>
   backend \<Rightarrow> (error + callable) \<times> integrator" where
  "jit_integrate L self dim' N integration_domain seed rng backend =
     (case check_inputs (Some dim') (Some N) integration_domain of
        Inl e \<Rightarrow> (Inl e, self)
      | Inr u \<Rightarrow>
          (let D = setup_integration_domain L dim' integration_domain backend;
               backend' = d_backend D;
               clo = \<lparr> c_N = sample_count N, c_seed = seed, c_rng = rng,
                       c_backend = backend', c_domain = D \<rparr>
           in if backend' \<in> set [''tensorflow'', ''jax'']
              then (if backend' = ''tensorflow''
                    then (Inr (CompiledIntegrate clo), self \<lparr> has_tf_jit := True \<rparr>)
                    else (Inr (CompiledIntegrate clo), self \<lparr> has_jax_jit := True \<rparr>))
              else if backend' = ''torch''
              then (Inr (LazyCompiledIntegrate clo None), self)
              else (Inl (ValueError (''Compilation not implemented for backend '' @ backend')),
                    self)))"

text \<open>
  A run of calls of one returned function, each with its integrand and domain, from
  the first to the last.
\<close>

fun invoke_all ::
  "lib \<Rightarrow> integrator \<Rightarrow> callable \<Rightarrow> ((points \<Rightarrow> pyvalue) \<times> domain) list \<Rightarrow> rng \<Rightarrow>
   integrator \<times> callable \<times> rng" where
  "invoke_all L self c [] ent = (self, c, ent)"
| "invoke_all L self c (call # calls) ent =
     (case invoke L self c (fst call) (snd call) ent of
        (r, self', c', ent') \<Rightarrow> invoke_all L self' c' calls ent')"

fun compiled_func :: "callable \<Rightarrow> artifact option" where
  "compiled_func (CompiledIntegrate clo) = None"
| "compiled_func (LazyCompiledIntegrate clo cf) = cf"


section \<open>Example inputs\<close>

text \<open>
  A library whose seeded generators count in eighths from the seed, an ambient stream,
  and three integrands: \<^verbatim>\<open>lambda x: 2\<close>, which returns a plain Python number; the
  constant 2 given once per sample point, as a tensor of the points' backend; and an
  integrand that returns three values whatever the number of points.
\<close>

definition lib0 :: lib where
  "lib0 = \<lparr> seeded = (\<lambda>b s i. real ((nat \<bar>s\<bar> + i) mod 8) / 8),
            promote = (\<lambda>b d1 d2. d2),
            array_dtype = (\<lambda>b. ''float32'') \<rparr>"

definition ent0 :: rng where
  "ent0 = (\<lambda>i. 1 / 2)"


definition batched_two :: "points \<Rightarrow> pyvalue" where
  "batched_two x = vector (p_backend x) (p_dtype x) (map (\<lambda>r. 2) (rows x))"







section \<open>The volume-times-mean formula\<close>



lemma calculate_result_vector:
  "xs \<noteq> [] \<Longrightarrow>
   \<exists>dt. calculate_result L (vector b fdt xs) D =
     Inr \<lparr> s_dtype = dt, s_value = Finite (volume D * sum_list xs / real (length xs)) \<rparr>"
  by (simp add: calculate_result_def shape0_def vector_def Let_def)



section \<open>Sampling\<close>

lemma sample_columns_spec:
  "length (fst (sample_columns N bs g)) = length bs
   \<and> (\<forall>d<length bs. fst (sample_columns N bs g) ! d =
         map (\<lambda>i. g (d * N + i) * (snd (bs ! d) - fst (bs ! d)) + fst (bs ! d)) [0..<N])
   \<and> snd (sample_columns N bs g) = (\<lambda>i. g (i + length bs * N))"
proof (induction bs arbitrary: g)
  case Nil
  show ?case by simp
next
  case (Cons b bs)
  let ?g' = "\<lambda>i. g (i + N)"
  have step: "sample_columns N (b # bs) g =
      (map (\<lambda>x. x * (snd b - fst b) + fst b) (map g [0..<N]) # fst (sample_columns N bs ?g'),
       snd (sample_columns N bs ?g'))"
    by (simp add: uniform_def Let_def split: prod.splits)
  note ih = Cons.IH [of ?g']
  show ?case
  proof (intro conjI allI impI)
    show "length (fst (sample_columns N (b # bs) g)) = length (b # bs)"
      using ih by (simp add: step del: sample_columns.simps)
  next
    fix d assume d: "d < length (b # bs)"
    show "fst (sample_columns N (b # bs) g) ! d =
        map (\<lambda>i. g (d * N + i) * (snd ((b # bs) ! d) - fst ((b # bs) ! d)) + fst ((b # bs) ! d)) [0..<N]"
    proof (cases d)
      case 0
      then show ?thesis by (simp add: step del: sample_columns.simps)
    next
      case (Suc k)
      with d have "k < length bs" by simp
      with ih have "fst (sample_columns N bs ?g') ! k =
         map (\<lambda>i. ?g' (k * N + i) * (snd (bs ! k) - fst (bs ! k)) + fst (bs ! k)) [0..<N]"
        by blast
      then show ?thesis using Suc by (simp add: step ac_simps del: sample_columns.simps)
    qed
  next
    show "snd (sample_columns N (b # bs) g) = (\<lambda>i. g (i + length (b # bs) * N))"
      using ih by (simp add: step ac_simps del: sample_columns.simps)
  qed
qed

lemma stack_axis1_rows:
  assumes "cols \<noteq> []" and "\<forall>d<length cols. length (cols ! d) = N"
  shows "\<exists>P. stack_axis1 D cols = Inr P \<and> p_backend P = d_backend D \<and> p_dtype P = d_dtype D
     \<and> length (rows P) = N
     \<and> (\<forall>i<N. length (rows P ! i) = length cols \<and> (\<forall>d<length cols. rows P ! i ! d = cols ! d ! i))"
proof -
  obtain c cs where c: "cols = c # cs" using assms(1) by (cases cols) auto
  with assms(2) have "length c = N" by auto
  then have eq: "stack_axis1 D cols =
      Inr \<lparr> p_backend = d_backend D, p_dtype = d_dtype D,
            rows = map (\<lambda>i. map (\<lambda>col. col ! i) cols) [0..<N] \<rparr>"
    by (simp add: stack_axis1_def c)
  show ?thesis unfolding eq by simp
qed

lemma draw_points_spec:
  assumes "bounds D \<noteq> []"
  shows "\<exists>P. draw_points N D g = (Inr P, \<lambda>i. g (i + length (bounds D) * N))
     \<and> p_backend P = d_backend D \<and> p_dtype P = d_dtype D
     \<and> length (rows P) = N
     \<and> (\<forall>i<N. length (rows P ! i) = length (bounds D)
           \<and> (\<forall>d<length (bounds D). rows P ! i ! d =
                 g (d * N + i) * (snd (bounds D ! d) - fst (bounds D ! d)) + fst (bounds D ! d)))"
proof -
  let ?cols = "fst (sample_columns N (bounds D) g)"
  note sc = sample_columns_spec [of N "bounds D" g]
  from sc have len: "length ?cols = length (bounds D)" by blast
  from sc have col: "\<And>d. d < length (bounds D) \<Longrightarrow> ?cols ! d =
      map (\<lambda>i. g (d * N + i) * (snd (bounds D ! d) - fst (bounds D ! d)) + fst (bounds D ! d)) [0..<N]"
    by blast
  from sc have g': "snd (sample_columns N (bounds D) g) = (\<lambda>i. g (i + length (bounds D) * N))"
    by blast
  have ne: "?cols \<noteq> []" using len assms by auto
  have lens: "\<forall>d<length ?cols. length (?cols ! d) = N" using len col by simp
  from stack_axis1_rows [OF ne lens, of D] obtain P where
    P: "stack_axis1 D ?cols = Inr P" "p_backend P = d_backend D" "p_dtype P = d_dtype D"
       "length (rows P) = N"
       "\<forall>i<N. length (rows P ! i) = length ?cols \<and> (\<forall>d<length ?cols. rows P ! i ! d = ?cols ! d ! i)"
    by blast
  have "draw_points N D g = (Inr P, \<lambda>i. g (i + length (bounds D) * N))"
    using P(1) g' by (simp add: draw_points_def case_prod_beta)
  moreover have "\<forall>i<N. length (rows P ! i) = length (bounds D)
           \<and> (\<forall>d<length (bounds D). rows P ! i ! d =
                 g (d * N + i) * (snd (bounds D ! d) - fst (bounds D ! d)) + fst (bounds D ! d))"
    using P(5) len col by simp
  ultimately show ?thesis using P(2,3,4) by blast
qed

lemma sample_points_table:
  assumes "bounds D \<noteq> []" and "rng = None \<or> seed = None"
  shows "\<exists>P rng' ent'. calculate_sample_points L N D seed rng ent = (Inr P, rng', ent')
     \<and> p_backend P = d_backend D
     \<and> length (rows P) = N
     \<and> (\<forall>i<N. length (rows P ! i) = length (bounds D))
     \<and> (\<forall>i<N. \<forall>d<length (bounds D). rows P ! i ! d =
           (case rng of None \<Rightarrow> RNG L (d_backend D) seed ent | Some g \<Rightarrow> g) (d * N + i)
             * (snd (bounds D ! d) - fst (bounds D ! d)) + fst (bounds D ! d))
     \<and> rng' = map_option (\<lambda>g i. g (i + length (bounds D) * N)) rng"
proof (cases rng)
  case None
  from draw_points_spec [OF assms(1), of N "RNG L (d_backend D) seed ent"]
  show ?thesis using None
    by (auto simp: calculate_sample_points_def)
next
  case (Some g)
  with assms(2) have seed: "seed = None" by simp
  from draw_points_spec [OF assms(1), of N g]
  show ?thesis using Some seed
    by (auto simp: calculate_sample_points_def)
qed

text \<open>
  C4. For a domain of at least one dimension, \<open>calculate_sample_points\<close> draws dimension
  by dimension in ascending order: dimension \<open>d\<close> takes the \<open>d\<close>-th block of \<open>N\<close> values
  of the generator, each multiplied by \<open>upper - lower\<close> and shifted by \<open>lower\<close> of that
  dimension, and the result is the table of \<open>N\<close> rows and \<open>dim\<close> columns in the backend of
  the domain; a generator the caller passed is left advanced by \<open>dim * N\<close> draws.
\<close>

theorem calculate_sample_points_table:
  assumes "bounds D \<noteq> []" and "rng = None \<or> seed = None"
  shows "\<exists>P rng' ent'. calculate_sample_points L N D seed rng ent = (Inr P, rng', ent')
     \<and> p_backend P = d_backend D
     \<and> length (rows P) = N
     \<and> (\<forall>i<N. length (rows P ! i) = length (bounds D))
     \<and> (\<forall>i<N. \<forall>d<length (bounds D). rows P ! i ! d =
           (case rng of None \<Rightarrow> RNG L (d_backend D) seed ent | Some g \<Rightarrow> g) (d * N + i)
             * (snd (bounds D ! d) - fst (bounds D ! d)) + fst (bounds D ! d))
     \<and> rng' = map_option (\<lambda>g i. g (i + length (bounds D) * N)) rng"
  using sample_points_table [OF assms] .

theorem calculate_sample_points_table_witness:
  "\<exists>P rng' ent'.
     calculate_sample_points
       \<lparr> seeded = (\<lambda>b s i. real i / 8), promote = (\<lambda>b d1 d2. d2), array_dtype = (\<lambda>b. ''float32'') \<rparr>
       2 \<lparr> d_backend = ''torch'', d_dtype = ''float32'', bounds = [(0, 2), (1, 4)] \<rparr>
       (Some 7) None (\<lambda>i. 0) = (Inr P, rng', ent')
     \<and> p_backend P = ''torch'' \<and> length (rows P) = 2 \<and> length (rows P ! 1) = 2
     \<and> rows P ! 1 ! 1 = 17 / 8 \<and> rows P ! 0 ! 1 = 7 / 4 \<and> rows P ! 1 ! 0 = 1 / 4"
proof -
  let ?L = "\<lparr> seeded = (\<lambda>b s i. real i / 8), promote = (\<lambda>b d1 d2. d2),
              array_dtype = (\<lambda>b. ''float32'') \<rparr>"
  let ?D = "\<lparr> d_backend = ''torch'', d_dtype = ''float32'', bounds = [(0, 2), (1, 4)] \<rparr>"
  have h1: "bounds ?D \<noteq> []" by simp
  have h2: "(None :: rng option) = None \<or> Some (7::int) = None" by simp
  from calculate_sample_points_table [OF h1 h2, of ?L 2 "\<lambda>i. 0"]
  obtain P rng' ent' where
    P: "calculate_sample_points ?L 2 ?D (Some 7) None (\<lambda>i. 0) = (Inr P, rng', ent')"
       "p_backend P = d_backend ?D" "length (rows P) = 2"
       "\<forall>i<2. length (rows P ! i) = length (bounds ?D)"
       "\<forall>i<2. \<forall>d<length (bounds ?D). rows P ! i ! d =
           (case (None :: rng option) of None \<Rightarrow> RNG ?L (d_backend ?D) (Some 7) (\<lambda>i. 0) | Some g \<Rightarrow> g) (d * 2 + i)
             * (snd (bounds ?D ! d) - fst (bounds ?D ! d)) + fst (bounds ?D ! d)"
    by blast
  from P(4) have "length (rows P ! 1) = 2" by simp
  moreover from P(5) have "rows P ! 1 ! 1 = 17 / 8" by (simp add: RNG_def)
  moreover from P(5) have "rows P ! 0 ! 1 = 7 / 4" by (simp add: RNG_def)
  moreover from P(5) have "rows P ! 1 ! 0 = 1 / 4" by (simp add: RNG_def)
  ultimately show ?thesis using P(1,2,3) by simp
qed

section \<open>Validation\<close>

lemma check_bounds_bad:
  "\<exists>b\<in>set rs. length b \<noteq> 2 \<or> b ! 0 > b ! 1 \<Longrightarrow> check_bounds rs = Inl (ValueError invalid_bound)"
  by (induction rs) auto

lemma check_inputs_invalid:
  assumes "dim' < 1
     \<or> (\<exists>a. integration_domain = Some a
            \<and> (int (length (arg_rows a)) \<noteq> dim'
                \<or> (\<exists>b\<in>set (arg_rows a). length b \<noteq> 2 \<or> b ! 0 > b ! 1)))
     \<or> less_than_one N \<or> \<not> type_is_int N"
  shows "\<exists>msg. check_inputs (Some dim') (Some N) integration_domain = Inl (ValueError msg)"
proof (cases "check_dim (Some dim') integration_domain")
  case (Inl e)
  then show ?thesis
    by (auto simp: check_inputs_def check_dim_def split: if_splits option.splits)
next
  case dim_ok: (Inr u)
  show ?thesis
  proof (cases "check_N (Some N)")
    case (Inl e)
    then show ?thesis using dim_ok
      by (auto simp: check_inputs_def check_N_def split: if_splits)
  next
    case n_ok: (Inr v)
    from dim_ok have d: "\<not> dim' < 1"
      and len: "\<And>a. integration_domain = Some a \<Longrightarrow> int (length (arg_rows a)) = dim'"
      by (auto simp: check_dim_def split: if_splits option.splits)
    from n_ok have n: "\<not> less_than_one N" "type_is_int N"
      by (auto simp: check_N_def split: if_splits)
    from assms d len n obtain a where a: "integration_domain = Some a"
      and bad: "\<exists>b\<in>set (arg_rows a). length b \<noteq> 2 \<or> b ! 0 > b ! 1"
      by auto
    from check_bounds_bad [OF bad] show ?thesis using dim_ok n_ok a
      by (simp add: check_inputs_def)
  qed
qed

text \<open>
  C6. A call of \<open>integrate\<close> with \<open>dim < 1\<close>, or a domain whose length is not \<open>dim\<close>, or
  an \<open>N\<close> that is not a positive integer, or a bound pair that has not two entries or
  has \<open>lower > upper\<close>, raises the ValueError of \<open>check_inputs\<close>, whatever the integrand,
  and leaves the instance, the caller's generator and the ambient stream as they were:
  nothing was sampled and nothing evaluated.
\<close>

theorem integrate_validates_eagerly:
  assumes "dim' < 1
     \<or> (\<exists>a. integration_domain = Some a
            \<and> (int (length (arg_rows a)) \<noteq> dim'
                \<or> (\<exists>b\<in>set (arg_rows a). length b \<noteq> 2 \<or> b ! 0 > b ! 1)))
     \<or> less_than_one N \<or> \<not> type_is_int N"
  shows "\<exists>msg. check_inputs (Some dim') (Some N) integration_domain = Inl (ValueError msg)
     \<and> integrate L self fn dim' N integration_domain seed rng backend ent =
         (Inl (ValueError msg), self, rng, ent)"
proof -
  from check_inputs_invalid [OF assms] obtain msg where
    "check_inputs (Some dim') (Some N) integration_domain = Inl (ValueError msg)" ..
  then show ?thesis by (simp add: integrate_def)
qed

theorem integrate_validates_eagerly_witness:
  "(\<exists>msg. integrate lib0 init batched_two 1 (PyInt 0) None None None ''torch'' ent0 =
            (Inl (ValueError msg), init, None, ent0))
   \<and> (\<exists>msg. integrate lib0 init batched_two 1 (PyInt (- 5)) None None None ''torch'' ent0 =
            (Inl (ValueError msg), init, None, ent0))
   \<and> (\<exists>msg. integrate lib0 init batched_two 1 (PyFloat (3 / 2)) None None None ''torch'' ent0 =
            (Inl (ValueError msg), init, None, ent0))
   \<and> (\<exists>msg. integrate lib0 init batched_two 1 (PyInt 10) (Some (DomainList [[2, 1]])) None None
              ''torch'' ent0 =
            (Inl (ValueError msg), init, None, ent0))
   \<and> (\<exists>msg. integrate lib0 init batched_two 2 (PyInt 10)
              (Some (DomainList [[0, 1], [0, 1], [0, 1]])) None None ''torch'' ent0 =
            (Inl (ValueError msg), init, None, ent0))
   \<and> (\<exists>msg. integrate lib0 init batched_two 0 (PyInt 10) None None None ''torch'' ent0 =
            (Inl (ValueError msg), init, None, ent0))
   \<and> (\<exists>msg. integrate lib0 init batched_two 1 (PyInt 10) (Some (DomainList [[0, 1, 2]])) None None
              ''torch'' ent0 =
            (Inl (ValueError msg), init, None, ent0))"
  using integrate_validates_eagerly [of 1 None "PyInt 0" lib0 init batched_two None None "''torch''" ent0]
    integrate_validates_eagerly [of 1 None "PyInt (- 5)" lib0 init batched_two None None "''torch''" ent0]
    integrate_validates_eagerly [of 1 None "PyFloat (3 / 2)" lib0 init batched_two None None "''torch''" ent0]
    integrate_validates_eagerly [of 1 "Some (DomainList [[2, 1]])" "PyInt 10" lib0 init batched_two
      None None "''torch''" ent0]
    integrate_validates_eagerly [of 2 "Some (DomainList [[0, 1], [0, 1], [0, 1]])" "PyInt 10" lib0 init
      batched_two None None "''torch''" ent0]
    integrate_validates_eagerly [of 0 None "PyInt 10" lib0 init batched_two None None "''torch''" ent0]
    integrate_validates_eagerly [of 1 "Some (DomainList [[0, 1, 2]])" "PyInt 10" lib0 init batched_two
      None None "''torch''" ent0]
  by simp blast

section \<open>The direct path\<close>

lemma check_inputs_valid:
  assumes "check_inputs (Some dim') (Some N) integration_domain = Inr ()"
  shows "1 \<le> dim'"
    and "\<exists>n. N = PyInt n \<and> 1 \<le> n"
    and "bounds (setup_integration_domain L dim' integration_domain backend) \<noteq> []"
proof -
  from assms have dim_ok: "check_dim (Some dim') integration_domain = Inr ()"
    and n_ok: "check_N (Some N) = Inr ()"
    by (auto simp: check_inputs_def split: sum.splits)
  from dim_ok show d: "1 \<le> dim'"
    by (auto simp: check_dim_def split: if_splits)
  from n_ok show "\<exists>n. N = PyInt n \<and> 1 \<le> n"
    by (cases N) (auto simp: check_N_def split: if_splits)
  show "bounds (setup_integration_domain L dim' integration_domain backend) \<noteq> []"
  proof (cases integration_domain)
    case None
    with d show ?thesis by (simp add: setup_integration_domain_def)
  next
    case (Some a)
    with dim_ok d have "length (arg_rows a) \<noteq> 0"
      by (auto simp: check_dim_def split: if_splits)
    with Some show ?thesis
      by (cases a) (simp_all add: setup_integration_domain_def)
  qed
qed

lemma integrate_valid:
  assumes valid: "check_inputs (Some dim') (Some (PyInt n)) integration_domain = Inr ()"
    and one: "rng = None \<or> seed = None"
  shows "\<exists>P rng' ent'.
     calculate_sample_points L (nat n) (setup_integration_domain L dim' integration_domain backend)
       seed rng ent = (Inr P, rng', ent')
     \<and> length (rows P) = nat n
     \<and> integrate L self fn dim' (PyInt n) integration_domain seed rng backend ent =
         (calculate_result L (fn P) (setup_integration_domain L dim' integration_domain backend),
          self \<lparr> nr_of_fevals := nr_of_fevals self + n \<rparr>, rng', ent')"
proof -
  let ?D = "setup_integration_domain L dim' integration_domain backend"
  from check_inputs_valid(2) [OF valid] have n: "1 \<le> n" by simp
  from check_inputs_valid(3) [OF valid] have ne: "bounds ?D \<noteq> []" .
  from sample_points_table [OF ne one, of L "nat n" ent]
  obtain P rng' ent' where
    P: "calculate_sample_points L (nat n) ?D seed rng ent = (Inr P, rng', ent')"
       "length (rows P) = nat n"
    by blast
  have "integrate L self fn dim' (PyInt n) integration_domain seed rng backend ent =
         (calculate_result L (fn P) ?D, self \<lparr> nr_of_fevals := nr_of_fevals self + n \<rparr>, rng', ent')"
    using valid P n by (simp add: integrate_def evaluate_integrand_def)
  with P show ?thesis by blast
qed


lemma calculate_result_constant:
  assumes "0 < k"
  shows "\<exists>dt. calculate_result L (vector b fdt (replicate k c)) D =
     Inr \<lparr> s_dtype = dt, s_value = Finite (c * volume D) \<rparr>"
proof -
  have "replicate k c \<noteq> []" using assms by simp
  from calculate_result_vector [OF this, of L b fdt D]
  show ?thesis using assms by (simp add: sum_list_replicate mult.commute)
qed

lemma batched_constant:
  assumes "check_inputs (Some dim') (Some (PyInt n)) integration_domain = Inr ()"
    and "rng = None \<or> seed = None"
    and "\<forall>P. fn P = vector (p_backend P) (p_dtype P) (replicate (length (rows P)) c)"
  shows "\<exists>dt self' rng' ent'.
     integrate L self fn dim' (PyInt n) integration_domain seed rng backend ent =
       (Inr \<lparr> s_dtype = dt,
              s_value = Finite (c * volume (setup_integration_domain L dim' integration_domain backend)) \<rparr>,
        self', rng', ent')"
proof -
  let ?D = "setup_integration_domain L dim' integration_domain backend"
  from integrate_valid [OF assms(1,2), of L backend ent self fn]
  obtain P rng' ent' where
    P: "length (rows P) = nat n"
       "integrate L self fn dim' (PyInt n) integration_domain seed rng backend ent =
         (calculate_result L (fn P) ?D, self \<lparr> nr_of_fevals := nr_of_fevals self + n \<rparr>, rng', ent')"
    by blast
  from check_inputs_valid(2) [OF assms(1)] have "0 < nat n" by simp
  from calculate_result_constant [OF this, of L "p_backend P" "p_dtype P" c ?D]
  obtain dt where "calculate_result L (fn P) ?D = Inr \<lparr> s_dtype = dt, s_value = Finite (c * volume ?D) \<rparr>"
    using assms(3) P(1) by auto
  with P(2) show ?thesis by auto
qed





text \<open>
  C3. With a seed and no generator, the result of \<open>integrate\<close> is a function of the
  seed, \<open>dim\<close>, \<open>N\<close>, the domain, the backend hint and the integrand alone: two calls
  with these arguments return the same result, whatever the instance holds at each call
  (so also when the second call runs on the instance the first one left) and whatever
  the ambient unseeded stream gives.
\<close>

theorem integrate_deterministic:
  "fst (integrate L self1 fn dim' N integration_domain (Some seed) None backend ent1) =
   fst (integrate L self2 fn dim' N integration_domain (Some seed) None backend ent2)"
  by (simp add: integrate_def calculate_sample_points_def RNG_def evaluate_integrand_def
      case_prod_beta Let_def split: sum.splits)

theorem integrate_deterministic_witness:
  "fst (integrate lib0 init batched_two 1 (PyInt 2) None (Some 3) None ''torch'' ent0) =
   fst (integrate lib0 (init \<lparr> nr_of_fevals := 2 \<rparr>) batched_two 1 (PyInt 2) None (Some 3) None
          ''torch'' (\<lambda>i. 0))"
  using integrate_deterministic [of lib0 init batched_two 1 "PyInt 2" None 3 "''torch''" ent0
      "init \<lparr> nr_of_fevals := 2 \<rparr>" "\<lambda>i. 0"] .

section \<open>The evaluation counter\<close>

lemma integrate_counter:
  assumes "integrate L self fn dim' (PyInt n) integration_domain seed rng backend ent =
             (Inr r, self', rng', ent')"
  shows "nr_of_fevals self' = nr_of_fevals self + n" and "1 \<le> n"
proof -
  have valid: "check_inputs (Some dim') (Some (PyInt n)) integration_domain = Inr ()"
    using assms by (cases "check_inputs (Some dim') (Some (PyInt n)) integration_domain")
      (simp_all add: integrate_def)
  from check_inputs_valid(2) [OF valid] show n: "1 \<le> n" by simp
  have one: "rng = None \<or> seed = None"
  proof (rule ccontr)
    assume "\<not> (rng = None \<or> seed = None)"
    then obtain g s where "rng = Some g" "seed = Some s" by auto
    with assms valid show False
      by (simp add: integrate_def calculate_sample_points_def)
  qed
  from integrate_valid [OF valid one, of L backend ent self fn] assms
  show "nr_of_fevals self' = nr_of_fevals self + n" by auto
qed

lemma eval_counter:
  "nr_of_fevals (snd (BaseIntegrator_eval self pts)) = nr_of_fevals self + int (length (rows pts))"
  by (simp add: BaseIntegrator_eval_def Let_def split: option.splits)

text \<open>
  C5. The counter of a fresh integrator is 0.  A call of \<open>integrate\<close> with \<open>N\<close> points
  that returns a result leaves the counter at its old value plus \<open>N\<close>, which is more than
  before, so at exactly \<open>N\<close> on a fresh integrator; and \<^verbatim>\<open>_eval\<close> adds
  the number of points it is given, so the counter never decreases.
\<close>

theorem evaluation_counter:
  assumes "integrate L self fn dim' (PyInt n) integration_domain seed rng backend ent =
             (Inr r, self', rng', ent')"
  shows "nr_of_fevals init = 0
     \<and> nr_of_fevals self' = nr_of_fevals self + n
     \<and> nr_of_fevals self < nr_of_fevals self'
     \<and> (self = init \<longrightarrow> nr_of_fevals self' = n)
     \<and> nr_of_fevals (snd (BaseIntegrator_eval self pts)) = nr_of_fevals self + int (length (rows pts))
     \<and> nr_of_fevals self \<le> nr_of_fevals (snd (BaseIntegrator_eval self pts))"
  using integrate_counter [OF assms] eval_counter [of self pts]
  by (simp add: init_def)

theorem evaluation_counter_witness:
  "\<exists>r self' rng' ent'.
     integrate lib0 init batched_two 2 (PyInt 50) (Some (DomainList [[0, 2], [0, 3]]))
       (Some 0) None ''torch'' ent0 = (Inr r, self', rng', ent')
     \<and> nr_of_fevals init = 0 \<and> nr_of_fevals self' = 50"
proof -
  have h1: "check_inputs (Some 2) (Some (PyInt 50)) (Some (DomainList [[0, 2], [0, 3]])) = Inr ()"
    by (simp add: check_inputs_def check_dim_def check_N_def)
  have h2: "(None :: rng option) = None \<or> Some (0::int) = None" by simp
  have h3: "\<forall>P. batched_two P = vector (p_backend P) (p_dtype P) (replicate (length (rows P)) 2)"
    by (simp add: batched_two_def map_replicate_const)
  from batched_constant [OF h1 h2 h3, of lib0 init "''torch''" ent0]
  obtain dt self' rng' ent' where run:
    "integrate lib0 init batched_two 2 (PyInt 50) (Some (DomainList [[0, 2], [0, 3]]))
       (Some 0) None ''torch'' ent0 =
       (Inr \<lparr> s_dtype = dt,
              s_value = Finite (2 * volume (setup_integration_domain lib0 2
                                   (Some (DomainList [[0, 2], [0, 3]])) ''torch'')) \<rparr>,
        self', rng', ent')"
    by blast
  from evaluation_counter [OF run] have "nr_of_fevals init = 0 \<and> nr_of_fevals self' = 50"
    by simp
  with run show ?thesis by blast
qed

section \<open>The shape of the function values\<close>





section \<open>The compiled path\<close>




lemma invoke_self: "fst (snd (invoke L self c fn D ent)) = self"
  by (cases c) (auto split: prod.splits option.splits sum.splits)

lemma invoke_all_self: "fst (invoke_all L self c calls ent) = self"
proof (induction calls arbitrary: self c ent)
  case Nil
  show ?case by simp
next
  case (Cons call calls)
  obtain r self' c' ent' where i: "invoke L self c (fst call) (snd call) ent = (r, self', c', ent')"
    by (cases "invoke L self c (fst call) (snd call) ent") auto
  with invoke_self [of L self c "fst call" "snd call" ent] have "self' = self" by simp
  with i Cons.IH [of self c' ent'] show ?case by simp
qed




















lemma jit_integrate_counter:
  "nr_of_fevals (snd (jit_integrate L self dim' N integration_domain seed rng backend)) =
     nr_of_fevals self"
  by (simp add: jit_integrate_def Let_def split: sum.splits)

lemma compiled_integrate_constant:
  assumes ne: "bounds D \<noteq> []"
    and one: "c_rng clo = None \<or> c_seed clo = None"
    and pos: "0 < c_N clo"
    and fn: "\<forall>P. fn P = vector (p_backend P) (p_dtype P) (replicate (length (rows P)) c)"
  shows "\<exists>dt r e. compiled_integrate L self clo fn D ent =
     (Inr \<lparr> s_dtype = dt, s_value = Finite (c * volume D) \<rparr>, r, e)"
proof -
  from sample_points_table [OF ne one, of L "c_N clo" ent]
  obtain P r e where
    P: "calculate_sample_points L (c_N clo) D (c_seed clo) (c_rng clo) ent = (Inr P, r, e)"
       "length (rows P) = c_N clo"
    by blast
  from calculate_result_constant [OF pos, of L "p_backend P" "p_dtype P" c D]
  obtain dt where "calculate_result L (fn P) D = Inr \<lparr> s_dtype = dt, s_value = Finite (c * volume D) \<rparr>"
    using fn P(2) by auto
  with P(1) show ?thesis by (simp add: compiled_integrate_def evaluate_integrand_def)
qed

text \<open>
  C10. Whatever the backend, \<open>jit_integrate\<close> that returns a function leaves the
  evaluation counter of the instance as it was, and so does every call of the returned
  function, one alone and any run of them: the count \<open>evaluate_integrand\<close> returns, the
  old count plus the number of points, is dropped on the tensorflow and jax path and on
  the torch path.
\<close>

theorem compiled_calls_leave_counter:
  assumes "jit_integrate L self dim' N integration_domain seed rng backend = (Inr c, self')"
  shows "nr_of_fevals self' = nr_of_fevals self
     \<and> (\<forall>fn D ent. nr_of_fevals (fst (snd (invoke L self' c fn D ent))) = nr_of_fevals self)
     \<and> (\<forall>calls ent. nr_of_fevals (fst (invoke_all L self' c calls ent)) = nr_of_fevals self)
     \<and> (\<forall>fn P. snd (evaluate_integrand self' fn P) = nr_of_fevals self + int (length (rows P)))"
proof -
  from jit_integrate_counter [of L self dim' N integration_domain seed rng backend] assms
  have "nr_of_fevals self' = nr_of_fevals self" by simp
  then show ?thesis
    by (simp add: invoke_self invoke_all_self evaluate_integrand_def)
qed

theorem compiled_calls_leave_counter_witness:
  "\<exists>clo. jit_integrate lib0 init 1 (PyInt 2) (Some (DomainTensor ''tensorflow'' ''float32'' [[0, 1]]))
            (Some 1) None ''torch'' =
          (Inr (CompiledIntegrate clo), init \<lparr> has_tf_jit := True \<rparr>)
     \<and> (\<exists>dt. fst (invoke lib0 (init \<lparr> has_tf_jit := True \<rparr>) (CompiledIntegrate clo) batched_two
                  \<lparr> d_backend = ''tensorflow'', d_dtype = ''float32'', bounds = [(0, 1)] \<rparr> ent0) =
              Inr \<lparr> s_dtype = dt, s_value = Finite 2 \<rparr>)
     \<and> nr_of_fevals (fst (snd (invoke lib0 (init \<lparr> has_tf_jit := True \<rparr>) (CompiledIntegrate clo)
           batched_two \<lparr> d_backend = ''tensorflow'', d_dtype = ''float32'', bounds = [(0, 1)] \<rparr> ent0))) = 0"
proof -
  let ?D = "\<lparr> d_backend = ''tensorflow'', d_dtype = ''float32'', bounds = [(0, 1)] \<rparr>"
  let ?clo = "\<lparr> c_N = 2, c_seed = Some 1, c_rng = None, c_backend = ''tensorflow'', c_domain = ?D \<rparr>"
  let ?self = "init \<lparr> has_tf_jit := True \<rparr>"
  have j: "jit_integrate lib0 init 1 (PyInt 2) (Some (DomainTensor ''tensorflow'' ''float32'' [[0, 1]]))
            (Some 1) None ''torch'' = (Inr (CompiledIntegrate ?clo), ?self)"
    by (simp add: jit_integrate_def check_inputs_def check_dim_def check_N_def
        setup_integration_domain_def Let_def)
  have h3: "\<forall>P. batched_two P = vector (p_backend P) (p_dtype P) (replicate (length (rows P)) 2)"
    by (simp add: batched_two_def map_replicate_const)
  have "\<exists>dt r e. compiled_integrate lib0 ?self ?clo batched_two ?D ent0 =
     (Inr \<lparr> s_dtype = dt, s_value = Finite (2 * volume ?D) \<rparr>, r, e)"
    by (rule compiled_integrate_constant [OF _ _ _ h3]) simp_all
  then have v: "\<exists>dt. fst (invoke lib0 ?self (CompiledIntegrate ?clo) batched_two ?D ent0) =
              Inr \<lparr> s_dtype = dt, s_value = Finite 2 \<rparr>"
    by (auto simp: volume_def scales_def)
  from compiled_calls_leave_counter [OF j]
  have "nr_of_fevals (fst (snd (invoke lib0 ?self (CompiledIntegrate ?clo) batched_two ?D ent0))) = 0"
    by (simp add: init_def)
  with j v show ?thesis by blast
qed

end
